theory Spec2Isabelle
  imports Main "HOL-Library.Sublist" "HOL-Library.Word"
begin

section \<open>The upload handler of backend/main.py\<close>

text \<open>
  The repository is one FastAPI module. Its only non-trivial function is the handler
  \<open>upload_file\<close> of \<open>POST /upload\<close>: it validates the declared content type, reads the
  upload, rejects an empty one, transcribes the bytes, asks a language model for a one
  sentence summary, has the summary synthesised, and returns the joined audio.

  The three services are reached through module-level names (\<open>aai\<close>, \<open>llm\<close>,
  \<open>elevenlabs\<close>). The module binds \<open>aai\<close> and \<open>elevenlabs\<close> and never binds \<open>llm\<close>, so
  all three are taken as parameters of the model, the record \<open>providers\<close>. A provider
  either returns a value or raises; what it raises is an \<open>exn\<close>. What the handler does
  to the outside world, apart from its debug output on stdout (which is left out), is the
  ordered list of provider calls it makes; the model returns that list next to the
  outcome. The handler is given twice: \<open>upload_file\<close>, over providers that are functions
  of their arguments, and \<open>upload_file_st\<close>, over clients that have a state which outlives
  the request.
\<close>

subsection \<open>Data\<close>

type_synonym byte = "8 word"
type_synonym bytes = "byte list"

text \<open>
  The fields of \<open>fastapi.UploadFile\<close> the handler touches. \<open>read\<close> is what
  \<open>await file.read()\<close> returns: the whole body. \<open>filename\<close> and \<open>file_size\<close> are only
  printed.
\<close>

record UploadFile =
  filename :: "string option"
  content_type :: "string option"
  file_size :: "nat option"
  read :: bytes

datatype SpeechModel = best | nano

record TranscriptionConfig =
  speech_model :: SpeechModel
  language_code :: string
  punctuate :: bool
  format_text :: bool

datatype TranscriptStatus = queued | processing | completed | error

text \<open>
  The attributes of the transcript object the handler reads: \<open>status\<close>, \<open>id\<close>, \<open>error\<close> and
  \<open>text\<close>. The last three may be Python's \<open>None\<close>.
\<close>

record Transcript =
  transcript_status :: TranscriptStatus
  transcript_id :: "string option"
  transcript_error :: "string option"
  transcript_text :: "string option"

text \<open>
  Exceptions, as far as the two \<open>except\<close> clauses tell them apart: a
  \<open>fastapi.HTTPException\<close> with its status code and detail; any other instance of
  \<open>Exception\<close>, carrying \<open>str(e)\<close>; or an exception that is not an instance of
  \<open>Exception\<close> (\<open>KeyboardInterrupt\<close>, \<open>SystemExit\<close>, \<open>asyncio.CancelledError\<close>), also
  carrying \<open>str(e)\<close>.
\<close>

datatype exn = HTTPException nat string | Exception string | BaseException string

text \<open>
  A \<open>StreamingResponse\<close>: its status code, its media type (sent as the Content-Type
  header) and the chunks its content iterator delivers.
\<close>

record Response =
  status_code :: nat
  media_type :: string
  body_iterator :: "bytes list"

record providers =
  transcribe :: "bytes \<Rightarrow> TranscriptionConfig \<Rightarrow> exn + Transcript"
  invoke :: "string \<Rightarrow> exn + string"
  convert :: "string \<Rightarrow> string \<Rightarrow> string \<Rightarrow> string \<Rightarrow> exn + bytes list"

text \<open>One entry per call the handler makes to a provider, with the arguments passed.\<close>

datatype call =
  Transcribe bytes TranscriptionConfig
| Invoke string
| Convert string string string string

subsection \<open>Python primitives the handler uses\<close>

text \<open>How an f-string renders a value that is a string or \<open>None\<close>.\<close>

fun fstr :: "string option \<Rightarrow> string" where
  "fstr None = ''None''"
| "fstr (Some s) = s"

text \<open>Truthiness of a value that is a string or \<open>None\<close>: both \<open>None\<close> and \<open>""\<close> are false.\<close>

fun truthy :: "string option \<Rightarrow> bool" where
  "truthy None = False"
| "truthy (Some s) = (s \<noteq> [])"

text \<open>\<open>sep.join(chunks)\<close> on byte strings.\<close>

fun join :: "bytes \<Rightarrow> bytes list \<Rightarrow> bytes" where
  "join sep [] = []"
| "join sep [x] = x"
| "join sep (x # y # ys) = x @ sep @ join sep (y # ys)"

text \<open>
  Iterating an \<open>io.BytesIO\<close> over a buffer, as \<open>StreamingResponse\<close> does with its content:
  the buffer comes out line by line, each line ending with its newline byte, the last one
  possibly without.
\<close>

fun BytesIO :: "bytes \<Rightarrow> bytes list" where
  "BytesIO [] = []"
| "BytesIO (b # bs) =
     (if b = 0x0A then [b] # BytesIO bs
      else (case BytesIO bs of
              [] \<Rightarrow> [[b]]
            | l # ls \<Rightarrow> (b # l) # ls))"

definition StreamingResponse :: "bytes list \<Rightarrow> string \<Rightarrow> Response" where
  "StreamingResponse content mt =
     \<lparr>status_code = 200, media_type = mt, body_iterator = content\<rparr>"

text \<open>The body a client receives: the chunks of the response, in order.\<close>

definition response_body :: "Response \<Rightarrow> bytes" where
  "response_body r = concat (body_iterator r)"

subsection \<open>The handler\<close>

definition config :: TranscriptionConfig where
  "config = \<lparr>speech_model = best, language_code = ''en'', punctuate = True,
              format_text = True\<rparr>"

definition voice_id :: string where
  "voice_id = ''JBFqnCBsd6RMkjVDRZzb''"

definition model_id :: string where
  "model_id = ''eleven_multilingual_v2''"

definition output_format :: string where
  "output_format = ''mp3_44100_128''"

text \<open>
  The condition of the first \<open>if\<close>: the declared content type is truthy and neither
  starts with \<open>audio/\<close> nor is in the one-element list of accepted other types.
\<close>

fun unsupported :: "string option \<Rightarrow> bool" where
  "unsupported None = False"
| "unsupported (Some ct) =
     (truthy (Some ct) \<and>
      \<not> (prefix ''audio/'' ct \<or> ct \<in> set [''application/octet-stream'']))"

definition unsupported_detail :: "string option \<Rightarrow> string" where
  "unsupported_detail ct =
     ''File type '' @ [CHR 0x27] @ fstr ct @ [CHR 0x27] @
     '' may not be supported. Try uploading a .wav, .mp3, or .webm file.''"

definition make_prompt :: "string option \<Rightarrow> string" where
  "make_prompt transcript_text' =
     ''Summarize this in one very short sentence:\<newline>\<newline>'' @ fstr transcript_text'"

text \<open>
  The body of the \<open>try\<close>. The outcome is \<open>Inl\<close> of the exception that leaves the block or
  \<open>Inr\<close> of the response returned; the second component lists the provider calls made.
\<close>

definition upload_file_try :: "providers \<Rightarrow> UploadFile \<Rightarrow> (exn + Response) \<times> call list" where
  "upload_file_try P file =
     (if unsupported (content_type file)
      then (Inl (HTTPException 400 (unsupported_detail (content_type file))), [])
      else
        let file_bytes = read file in
        if length file_bytes = 0
        then (Inl (HTTPException 400 ''Uploaded file is empty''), [])
        else
          (case transcribe P file_bytes config of
             Inl e \<Rightarrow> (Inl e, [Transcribe file_bytes config])
           | Inr transcript \<Rightarrow>
               if transcript_status transcript = error
               then (Inl (HTTPException 500
                            (''Transcription failed: '' @ fstr (transcript_error transcript))),
                     [Transcribe file_bytes config])
               else
                 let prompt = make_prompt (transcript_text transcript) in
                 (case invoke P prompt of
                    Inl e \<Rightarrow> (Inl e, [Transcribe file_bytes config, Invoke prompt])
                  | Inr response \<Rightarrow>
                      (case convert P response voice_id model_id output_format of
                         Inl e \<Rightarrow>
                           (Inl e, [Transcribe file_bytes config, Invoke prompt,
                                    Convert response voice_id model_id output_format])
                       | Inr audio_generator \<Rightarrow>
                           let audio = join [] audio_generator in
                           (Inr (StreamingResponse (BytesIO audio) ''audio/mpeg''),
                            [Transcribe file_bytes config, Invoke prompt,
                             Convert response voice_id model_id output_format])))))"

text \<open>
  The two \<open>except\<close> clauses: an \<open>HTTPException\<close> is raised again as it is, any other
  instance of \<open>Exception\<close> becomes a 500 whose detail carries \<open>str(e)\<close>. An exception
  that is not an instance of \<open>Exception\<close> matches neither clause and leaves the handler
  as it is.
\<close>

fun except :: "exn \<Rightarrow> exn" where
  "except (HTTPException code detail) = HTTPException code detail"
| "except (Exception msg) = HTTPException 500 (''Internal server error: '' @ msg)"
| "except (BaseException msg) = BaseException msg"

definition upload_file :: "providers \<Rightarrow> UploadFile \<Rightarrow> (exn + Response) \<times> call list" where
  "upload_file P file =
     (case upload_file_try P file of
        (Inl e, calls) \<Rightarrow> (Inl (except e), calls)
      | (Inr r, calls) \<Rightarrow> (Inr r, calls))"

subsection \<open>The handler with the providers' state\<close>

text \<open>
  The three clients are objects of the module, shared by all requests, and a call may
  change what they hold. Here each provider call takes the state \<open>'s\<close> of the clients and
  returns the state it leaves, and the handler threads that state through its calls in
  the order it makes them. The handler has no other access to the state: it assigns no
  module-level name and keeps nothing but local variables.
\<close>

record 's clients =
  transcribe_st :: "bytes \<Rightarrow> TranscriptionConfig \<Rightarrow> 's \<Rightarrow> (exn + Transcript) \<times> 's"
  invoke_st :: "string \<Rightarrow> 's \<Rightarrow> (exn + string) \<times> 's"
  convert_st :: "string \<Rightarrow> string \<Rightarrow> string \<Rightarrow> string \<Rightarrow> 's \<Rightarrow> (exn + bytes list) \<times> 's"

definition upload_file_try_st ::
  "'s clients \<Rightarrow> UploadFile \<Rightarrow> 's \<Rightarrow> ((exn + Response) \<times> call list) \<times> 's" where
  "upload_file_try_st W file s0 =
     (if unsupported (content_type file)
      then ((Inl (HTTPException 400 (unsupported_detail (content_type file))), []), s0)
      else
        let file_bytes = read file in
        if length file_bytes = 0
        then ((Inl (HTTPException 400 ''Uploaded file is empty''), []), s0)
        else
          (case transcribe_st W file_bytes config s0 of
             (Inl e, s1) \<Rightarrow> ((Inl e, [Transcribe file_bytes config]), s1)
           | (Inr transcript, s1) \<Rightarrow>
               if transcript_status transcript = error
               then ((Inl (HTTPException 500
                             (''Transcription failed: '' @ fstr (transcript_error transcript))),
                      [Transcribe file_bytes config]), s1)
               else
                 let prompt = make_prompt (transcript_text transcript) in
                 (case invoke_st W prompt s1 of
                    (Inl e, s2) \<Rightarrow>
                      ((Inl e, [Transcribe file_bytes config, Invoke prompt]), s2)
                  | (Inr response, s2) \<Rightarrow>
                      (case convert_st W response voice_id model_id output_format s2 of
                         (Inl e, s3) \<Rightarrow>
                           ((Inl e, [Transcribe file_bytes config, Invoke prompt,
                                     Convert response voice_id model_id output_format]), s3)
                       | (Inr audio_generator, s3) \<Rightarrow>
                           let audio = join [] audio_generator in
                           ((Inr (StreamingResponse (BytesIO audio) ''audio/mpeg''),
                             [Transcribe file_bytes config, Invoke prompt,
                              Convert response voice_id model_id output_format]), s3)))))"

definition upload_file_st ::
  "'s clients \<Rightarrow> UploadFile \<Rightarrow> 's \<Rightarrow> ((exn + Response) \<times> call list) \<times> 's" where
  "upload_file_st W file s0 =
     (case upload_file_try_st W file s0 of
        ((Inl e, calls), s) \<Rightarrow> ((Inl (except e), calls), s)
      | ((Inr r, calls), s) \<Rightarrow> ((Inr r, calls), s))"

text \<open>
  Providers are deterministic when what a call answers is a function of its arguments
  alone, whatever the state it runs in. (What state it leaves is not restricted.)
\<close>

definition deterministic :: "'s clients \<Rightarrow> bool" where
  "deterministic W \<longleftrightarrow>
     (\<forall>b c s s'. fst (transcribe_st W b c s) = fst (transcribe_st W b c s')) \<and>
     (\<forall>p s s'. fst (invoke_st W p s) = fst (invoke_st W p s')) \<and>
     (\<forall>t v m f s s'. fst (convert_st W t v m f s) = fst (convert_st W t v m f s'))"

text \<open>The answers the clients give in a fixed state, as providers without state.\<close>

definition answers :: "'s clients \<Rightarrow> 's \<Rightarrow> providers" where
  "answers W s =
     \<lparr>transcribe = (\<lambda>b c. fst (transcribe_st W b c s)),
      invoke = (\<lambda>p. fst (invoke_st W p s)),
      convert = (\<lambda>t v m f. fst (convert_st W t v m f s))\<rparr>"

subsection \<open>Example uploads and stub providers\<close>

text \<open>
  Concrete inputs at which the theorems below are instantiated: providers that answer
  every call with a fixed outcome, a completed and a failed transcript, and two uploads.
\<close>

definition stub_providers ::
  "(exn + Transcript) \<Rightarrow> (string \<Rightarrow> exn + string) \<Rightarrow> (exn + bytes list) \<Rightarrow> providers" where
  "stub_providers t l s =
     \<lparr>transcribe = (\<lambda>_ _. t), invoke = l, convert = (\<lambda>_ _ _ _. s)\<rparr>"

definition echo :: "string \<Rightarrow> exn + string" where
  "echo prompt = Inr prompt"

definition completed_transcript :: "string option \<Rightarrow> Transcript" where
  "completed_transcript txt =
     \<lparr>transcript_status = completed, transcript_id = Some ''t1'',
      transcript_error = None, transcript_text = txt\<rparr>"

definition failed_transcript :: "string \<Rightarrow> Transcript" where
  "failed_transcript d =
     \<lparr>transcript_status = error, transcript_id = Some ''t1'',
      transcript_error = Some d, transcript_text = None\<rparr>"

definition raising :: "exn \<Rightarrow> string \<Rightarrow> exn + string" where
  "raising e prompt = Inl e"

text \<open>
  Clients whose state is the number of calls made so far: \<open>counting\<close> answers as the
  given providers do and counts; \<open>numbering\<close> also lets the synthesis answer with the
  count as its only byte.
\<close>

definition counting :: "providers \<Rightarrow> nat clients" where
  "counting P =
     \<lparr>transcribe_st = (\<lambda>b c n. (transcribe P b c, Suc n)),
      invoke_st = (\<lambda>p n. (invoke P p, Suc n)),
      convert_st = (\<lambda>t v m f n. (convert P t v m f, Suc n))\<rparr>"

definition numbering :: "providers \<Rightarrow> nat clients" where
  "numbering P =
     \<lparr>transcribe_st = (\<lambda>b c n. (transcribe P b c, Suc n)),
      invoke_st = (\<lambda>p n. (invoke P p, Suc n)),
      convert_st = (\<lambda>t v m f n. (Inr [[of_nat n]], Suc n))\<rparr>"

definition upload :: "string option \<Rightarrow> bytes \<Rightarrow> UploadFile" where
  "upload ct bs =
     \<lparr>filename = Some ''clip.wav'', content_type = ct, file_size = Some (length bs),
      read = bs\<rparr>"

section \<open>Properties of the primitives\<close>

text \<open>Joining with the empty separator is plain concatenation, in order.\<close>

lemma join_empty: "join [] chunks = concat chunks"
  by (induction chunks rule: induct_list012) simp_all

lemma concat_BytesIO: "concat (BytesIO bs) = bs"
  by (induction bs) (auto split: list.splits)

lemma BytesIO_nonempty_chunks: "[] \<notin> set (BytesIO bs)"
  by (induction bs) (auto split: list.splits)

lemma response_body_StreamingResponse:
  "response_body (StreamingResponse (BytesIO (join [] chunks)) mt) = concat chunks"
  by (simp add: response_body_def StreamingResponse_def concat_BytesIO join_empty)

section \<open>The handler, stage by stage\<close>

text \<open>
  One equation per way through the handler: what it returns and which provider calls it
  has made, given how far the request gets.
\<close>

lemma upload_file_rejected:
  "unsupported (content_type file) \<Longrightarrow>
   upload_file P file = (Inl (HTTPException 400 (unsupported_detail (content_type file))), [])"
  by (simp add: upload_file_def upload_file_try_def)

lemma upload_file_empty:
  "\<not> unsupported (content_type file) \<Longrightarrow> read file = [] \<Longrightarrow>
   upload_file P file = (Inl (HTTPException 400 ''Uploaded file is empty''), [])"
  by (simp add: upload_file_def upload_file_try_def)

lemma upload_file_transcribe_raises:
  "\<not> unsupported (content_type file) \<Longrightarrow> read file \<noteq> [] \<Longrightarrow>
   transcribe P (read file) config = Inl e \<Longrightarrow>
   upload_file P file = (Inl (except e), [Transcribe (read file) config])"
  by (simp add: upload_file_def upload_file_try_def)

lemma upload_file_transcript_error:
  "\<not> unsupported (content_type file) \<Longrightarrow> read file \<noteq> [] \<Longrightarrow>
   transcribe P (read file) config = Inr t \<Longrightarrow> transcript_status t = error \<Longrightarrow>
   upload_file P file =
     (Inl (HTTPException 500 (''Transcription failed: '' @ fstr (transcript_error t))),
      [Transcribe (read file) config])"
  by (simp add: upload_file_def upload_file_try_def)

lemma upload_file_invoke_raises:
  "\<not> unsupported (content_type file) \<Longrightarrow> read file \<noteq> [] \<Longrightarrow>
   transcribe P (read file) config = Inr t \<Longrightarrow> transcript_status t \<noteq> error \<Longrightarrow>
   invoke P (make_prompt (transcript_text t)) = Inl e \<Longrightarrow>
   upload_file P file =
     (Inl (except e),
      [Transcribe (read file) config, Invoke (make_prompt (transcript_text t))])"
  by (simp add: upload_file_def upload_file_try_def)

lemma upload_file_convert_raises:
  "\<not> unsupported (content_type file) \<Longrightarrow> read file \<noteq> [] \<Longrightarrow>
   transcribe P (read file) config = Inr t \<Longrightarrow> transcript_status t \<noteq> error \<Longrightarrow>
   invoke P (make_prompt (transcript_text t)) = Inr s \<Longrightarrow>
   convert P s voice_id model_id output_format = Inl e \<Longrightarrow>
   upload_file P file =
     (Inl (except e),
      [Transcribe (read file) config, Invoke (make_prompt (transcript_text t)),
       Convert s voice_id model_id output_format])"
  by (simp add: upload_file_def upload_file_try_def)

lemma upload_file_success:
  "\<not> unsupported (content_type file) \<Longrightarrow> read file \<noteq> [] \<Longrightarrow>
   transcribe P (read file) config = Inr t \<Longrightarrow> transcript_status t \<noteq> error \<Longrightarrow>
   invoke P (make_prompt (transcript_text t)) = Inr s \<Longrightarrow>
   convert P s voice_id model_id output_format = Inr chunks \<Longrightarrow>
   upload_file P file =
     (Inr (StreamingResponse (BytesIO (join [] chunks)) ''audio/mpeg''),
      [Transcribe (read file) config, Invoke (make_prompt (transcript_text t)),
       Convert s voice_id model_id output_format])"
  by (simp add: upload_file_def upload_file_try_def)

lemma upload_file_calls_prefix:
  "\<not> unsupported (content_type file) \<Longrightarrow> read file \<noteq> [] \<Longrightarrow>
   \<exists>rest. snd (upload_file P file) = Transcribe (read file) config # rest"
  by (simp add: upload_file_def upload_file_try_def Let_def split: sum.splits prod.splits)

lemma make_prompt_contains: "sublist s (make_prompt (Some s))"
  unfolding make_prompt_def by (simp only: fstr.simps sublist_append_leftI)

lemma unsupported_iff:
  "unsupported cto \<longleftrightarrow>
     (\<exists>ct. cto = Some ct \<and> ct \<noteq> [] \<and> \<not> prefix ''audio/'' ct \<and> ct \<noteq> ''application/octet-stream'')"
  by (cases cto) auto

lemma empty_detail_differs: "unsupported_detail ct \<noteq> ''Uploaded file is empty''"
  by (simp add: unsupported_detail_def)

text \<open>
  When the language model is called, and with which prompt: exactly when the upload
  passes both checks and the transcription returns a transcript whose status is not
  \<open>error\<close>, and then with the prompt built from that transcript's text.
\<close>

lemma Invoke_in_calls_iff:
  "Invoke p \<in> set (snd (upload_file P file)) \<longleftrightarrow>
     \<not> unsupported (content_type file) \<and> read file \<noteq> [] \<and>
     (\<exists>t. transcribe P (read file) config = Inr t \<and> transcript_status t \<noteq> error \<and>
          p = make_prompt (transcript_text t))"
  by (auto simp: upload_file_def upload_file_try_def Let_def split: sum.splits)

text \<open>An \<open>HTTPException\<close> with status 400 leaves the handler only if it was raised as such.\<close>

lemma except_HTTPException_400:
  "except e = HTTPException 400 d \<longleftrightarrow> e = HTTPException 400 d"
  by (cases e) auto

text \<open>The outcome reads only the body and the declared content type of the upload.\<close>

lemma upload_file_cong:
  "read file1 = read file2 \<Longrightarrow> content_type file1 = content_type file2 \<Longrightarrow>
   upload_file P file1 = upload_file P file2"
  by (simp add: upload_file_def upload_file_try_def)

section \<open>The handler and the state of the clients\<close>

text \<open>
  With deterministic clients, the handler run in any state gives what the handler over
  the clients' answers gives: the state does not reach the outcome.
\<close>

lemma upload_file_st_answers:
  assumes "deterministic W"
  shows "fst (upload_file_st W file s) = upload_file (answers W s') file"
proof -
  let ?b = "read file"
  obtain r1 s1 where st1: "transcribe_st W ?b config s = (r1, s1)"
    by (cases "transcribe_st W ?b config s")
  with assms have p1: "fst (transcribe_st W ?b config s') = r1"
    unfolding deterministic_def by (metis fst_conv)
  show ?thesis
  proof (cases r1)
    case (Inl e)
    with st1 p1 show ?thesis
      by (simp add: upload_file_st_def upload_file_try_st_def upload_file_def
          upload_file_try_def answers_def Let_def)
  next
    case (Inr tr)
    note r1 = this
    let ?p = "make_prompt (transcript_text tr)"
    obtain r2 s2 where st2: "invoke_st W ?p s1 = (r2, s2)"
      by (cases "invoke_st W ?p s1")
    with assms have p2: "fst (invoke_st W ?p s') = r2"
      unfolding deterministic_def by (metis fst_conv)
    show ?thesis
    proof (cases r2)
      case (Inl e)
      with st1 p1 r1 st2 p2 show ?thesis
        by (simp add: upload_file_st_def upload_file_try_st_def upload_file_def
            upload_file_try_def answers_def Let_def)
    next
      case (Inr response)
      note r2 = this
      obtain r3 s3 where
        st3: "convert_st W response voice_id model_id output_format s2 = (r3, s3)"
        by (cases "convert_st W response voice_id model_id output_format s2")
      with assms have p3: "fst (convert_st W response voice_id model_id output_format s') = r3"
        unfolding deterministic_def by (metis fst_conv)
      from st1 p1 r1 st2 p2 r2 st3 p3 show ?thesis
        by (cases r3)
          (simp_all add: upload_file_st_def upload_file_try_st_def upload_file_def
            upload_file_try_def answers_def Let_def)
    qed
  qed
qed

lemma deterministic_counting: "deterministic (counting P)"
  by (simp add: deterministic_def counting_def)

text \<open>
  The state is carried from one request to the next, and clients that answer by it make
  the second response differ from the first: here the synthesis answers with the number
  of calls made so far.
\<close>

lemma upload_file_st_numbering_differs:
  "fst (upload_file_st
          (numbering (stub_providers (Inr (completed_transcript (Some ''Hello there''))) echo
             (Inr [])))
          (upload (Some ''audio/wav'') [0x52, 0x49]) 0) \<noteq>
   fst (upload_file_st
          (numbering (stub_providers (Inr (completed_transcript (Some ''Hello there''))) echo
             (Inr [])))
          (upload (Some ''audio/wav'') [0x52, 0x49])
          (snd (upload_file_st
                  (numbering (stub_providers (Inr (completed_transcript (Some ''Hello there'')))
                     echo (Inr [])))
                  (upload (Some ''audio/wav'') [0x52, 0x49]) 0)))"
  by (simp add: upload_file_st_def upload_file_try_st_def numbering_def stub_providers_def
      completed_transcript_def echo_def upload_def Let_def StreamingResponse_def)

section \<open>The claims\<close>

text \<open>
  C1. An upload with a non-empty body and an accepted content type, a transcription that
  completes with the text "Hello there", a language model that returns its prompt, and a
  synthesis that yields the single chunk b"AUDIO": the handler returns a response with
  status 200, media type audio/mpeg and body b"AUDIO"; it calls the three providers once
  each, in order, and the prompt it passes to the language model contains "Hello there".
\<close>

theorem upload_file_hello_there:
  assumes "\<not> unsupported (content_type file)" and "read file \<noteq> []"
    and "transcribe P (read file) config = Inr t"
    and "transcript_status t = completed"
    and "transcript_text t = Some ''Hello there''"
    and "\<forall>prompt. invoke P prompt = Inr prompt"
    and "\<forall>txt. convert P txt voice_id model_id output_format = Inr [[0x41, 0x55, 0x44, 0x49, 0x4F]]"
  shows "\<exists>r prompt.
           upload_file P file =
             (Inr r, [Transcribe (read file) config, Invoke prompt,
                      Convert prompt voice_id model_id output_format]) \<and>
           status_code r = 200 \<and> media_type r = ''audio/mpeg'' \<and>
           response_body r = [0x41, 0x55, 0x44, 0x49, 0x4F] \<and>
           sublist ''Hello there'' prompt"
proof -
  let ?p = "make_prompt (transcript_text t)"
  let ?r = "StreamingResponse (BytesIO (join [] [[0x41, 0x55, 0x44, 0x49, 0x4F]])) ''audio/mpeg''"
  from assms have run: "upload_file P file =
      (Inr ?r, [Transcribe (read file) config, Invoke ?p, Convert ?p voice_id model_id output_format])"
    by (intro upload_file_success) simp_all
  have "status_code ?r = 200" and "media_type ?r = ''audio/mpeg''"
    by (simp_all add: StreamingResponse_def)
  moreover have "response_body ?r = [0x41, 0x55, 0x44, 0x49, 0x4F]"
    by (simp only: response_body_StreamingResponse) simp
  moreover have "sublist ''Hello there'' ?p"
    using assms(5) make_prompt_contains [of "''Hello there''"] by simp
  ultimately show ?thesis using run by blast
qed

text \<open>An upload declared as audio/wav with a two-byte body, and the three stubs.\<close>

theorem upload_file_hello_there_witness:
  "\<exists>r prompt.
     upload_file
       (stub_providers (Inr (completed_transcript (Some ''Hello there''))) echo
          (Inr [[0x41, 0x55, 0x44, 0x49, 0x4F]]))
       (upload (Some ''audio/wav'') [0x52, 0x49]) =
       (Inr r, [Transcribe [0x52, 0x49] config, Invoke prompt,
                Convert prompt voice_id model_id output_format]) \<and>
     status_code r = 200 \<and> media_type r = ''audio/mpeg'' \<and>
     response_body r = [0x41, 0x55, 0x44, 0x49, 0x4F] \<and>
     sublist ''Hello there'' prompt"
  using upload_file_hello_there
    [of "upload (Some ''audio/wav'') [0x52, 0x49]"
        "stub_providers (Inr (completed_transcript (Some ''Hello there''))) echo
           (Inr [[0x41, 0x55, 0x44, 0x49, 0x4F]])"
        "completed_transcript (Some ''Hello there'')"]
  by (simp add: upload_def stub_providers_def completed_transcript_def echo_def)

text \<open>
  C2 (as amended). An upload with a zero-length body is answered with status 400 and no
  provider is called, whatever its declared content type. The content type is checked
  before the body is read: the detail is "Uploaded file is empty" when the declared
  content type is accepted, and the unsupported-type message when it is not.
\<close>

theorem upload_file_empty_body:
  assumes "read file = []"
  shows "upload_file P file =
           (Inl (HTTPException 400
                   (if unsupported (content_type file)
                    then unsupported_detail (content_type file)
                    else ''Uploaded file is empty'')), [])"
  using assms by (simp add: upload_file_rejected upload_file_empty)

text \<open>An empty upload declared as audio/wav.\<close>

theorem upload_file_empty_body_witness:
  "upload_file (stub_providers (Inr (completed_transcript (Some ''Hello there''))) echo (Inr []))
     (upload (Some ''audio/wav'') []) =
   (Inl (HTTPException 400 ''Uploaded file is empty''), [])"
  using upload_file_empty_body
    [of "upload (Some ''audio/wav'') []"
        "stub_providers (Inr (completed_transcript (Some ''Hello there''))) echo (Inr [])"]
  by (simp add: upload_def)

text \<open>
  An empty upload declared as text/plain: the detail is the unsupported-type message, not
  "Uploaded file is empty".
\<close>

theorem upload_file_empty_body_counterexample:
  "read (upload (Some ''text/plain'') []) = [] \<and>
   fst (upload_file (stub_providers (Inr (completed_transcript (Some ''Hello there''))) echo (Inr []))
          (upload (Some ''text/plain'') [])) =
     Inl (HTTPException 400 (unsupported_detail (Some ''text/plain''))) \<and>
   unsupported_detail (Some ''text/plain'') \<noteq> ''Uploaded file is empty''"
  by (simp add: upload_file_rejected upload_def empty_detail_differs)

text \<open>
  C3 (as amended). An upload whose declared content type is a non-empty string that
  neither starts with "audio/" nor equals "application/octet-stream" is answered with
  status 400 and the unsupported-type message naming that content type, and no provider
  is called. (An empty string is falsy in the handler's test, like an absent content
  type, and is accepted.)
\<close>

theorem upload_file_unsupported_type:
  assumes "content_type file = Some ct" and "ct \<noteq> []"
    and "\<not> prefix ''audio/'' ct" and "ct \<noteq> ''application/octet-stream''"
  shows "upload_file P file =
           (Inl (HTTPException 400
                   (''File type '' @ [CHR 0x27] @ ct @ [CHR 0x27] @
                    '' may not be supported. Try uploading a .wav, .mp3, or .webm file.'')),
            [])"
proof -
  from assms have "unsupported (content_type file)"
    by (simp add: unsupported_iff)
  then show ?thesis
    using assms(1) by (simp add: upload_file_rejected unsupported_detail_def)
qed

text \<open>A non-empty upload declared as text/plain.\<close>

theorem upload_file_unsupported_type_witness:
  "upload_file
     (stub_providers (Inr (completed_transcript (Some ''Hello there''))) echo
        (Inr [[0x41, 0x55, 0x44, 0x49, 0x4F]]))
     (upload (Some ''text/plain'') [0x52, 0x49]) =
   (Inl (HTTPException 400
           (''File type '' @ [CHR 0x27] @ ''text/plain'' @ [CHR 0x27] @
            '' may not be supported. Try uploading a .wav, .mp3, or .webm file.'')),
    [])"
  using upload_file_unsupported_type
    [of "upload (Some ''text/plain'') [0x52, 0x49]" "''text/plain''"
        "stub_providers (Inr (completed_transcript (Some ''Hello there''))) echo
           (Inr [[0x41, 0x55, 0x44, 0x49, 0x4F]])"]
  by (simp add: upload_def)

text \<open>
  A non-empty upload whose declared content type is the empty string: it is present,
  does not start with "audio/" and is not "application/octet-stream", yet the request
  runs through all three providers and is answered with the audio.
\<close>

theorem upload_file_unsupported_type_counterexample:
  "\<not> prefix ''audio/'' '''' \<and> '''' \<noteq> ''application/octet-stream'' \<and>
   upload_file
     (stub_providers (Inr (completed_transcript (Some ''Hello there''))) echo
        (Inr [[0x41, 0x55, 0x44, 0x49, 0x4F]]))
     (upload (Some '''') [0x52, 0x49]) =
   (Inr (StreamingResponse [[0x41, 0x55, 0x44, 0x49, 0x4F]] ''audio/mpeg''),
    [Transcribe [0x52, 0x49] config,
     Invoke ''Summarize this in one very short sentence:\<newline>\<newline>Hello there'',
     Convert ''Summarize this in one very short sentence:\<newline>\<newline>Hello there''
       voice_id model_id output_format])"
  by (simp add: upload_file_def upload_file_try_def upload_def stub_providers_def
      completed_transcript_def echo_def make_prompt_def Let_def)

text \<open>
  C4. For a non-empty upload with an accepted content type, when the transcription
  returns a transcript with status \<open>error\<close> and diagnostic text \<open>d\<close> (the claim's "D"
  is one such), the handler answers with status 500 and detail "Transcription failed: "
  followed by \<open>d\<close>, and the only provider call made is the transcription: neither the
  language model nor the synthesis is called.
\<close>

theorem upload_file_transcription_failed:
  assumes "\<not> unsupported (content_type file)" and "read file \<noteq> []"
    and "transcribe P (read file) config = Inr t"
    and "transcript_status t = error"
    and "transcript_error t = Some d"
  shows "upload_file P file =
           (Inl (HTTPException 500 (''Transcription failed: '' @ d)),
            [Transcribe (read file) config])"
  using assms by (simp add: upload_file_transcript_error)

text \<open>The diagnostic text "D".\<close>

theorem upload_file_transcription_failed_witness:
  "upload_file (stub_providers (Inr (failed_transcript ''D'')) echo (Inr [[0x41]]))
     (upload (Some ''audio/wav'') [0x52, 0x49]) =
   (Inl (HTTPException 500 ''Transcription failed: D''), [Transcribe [0x52, 0x49] config])"
  using upload_file_transcription_failed
    [of "upload (Some ''audio/wav'') [0x52, 0x49]"
        "stub_providers (Inr (failed_transcript ''D'')) echo (Inr [[0x41]])"
        "failed_transcript ''D''" "''D''"]
  by (simp add: upload_def stub_providers_def failed_transcript_def)

text \<open>
  C5 (as amended). When the request reaches the summarization step and the language
  model raises an instance of \<open>Exception\<close> that is not an \<open>HTTPException\<close>, with message
  \<open>msg\<close>, the handler answers with status 500 and detail "Internal server error: "
  followed by \<open>msg\<close>; the calls made are the transcription and the language model, and
  the synthesis is never called. (An exception that is not an instance of \<open>Exception\<close>
  is not translated.)
\<close>

theorem upload_file_summarization_raises:
  assumes "\<not> unsupported (content_type file)" and "read file \<noteq> []"
    and "transcribe P (read file) config = Inr t"
    and "transcript_status t \<noteq> error"
    and "invoke P (make_prompt (transcript_text t)) = Inl (Exception msg)"
  shows "upload_file P file =
           (Inl (HTTPException 500 (''Internal server error: '' @ msg)),
            [Transcribe (read file) config, Invoke (make_prompt (transcript_text t))])"
  using assms by (simp add: upload_file_invoke_raises)

text \<open>A language model that raises with the message "connection refused".\<close>

theorem upload_file_summarization_raises_witness:
  "upload_file
     (stub_providers (Inr (completed_transcript (Some ''Hello there'')))
        (\<lambda>prompt. Inl (Exception ''connection refused'')) (Inr [[0x41]]))
     (upload (Some ''audio/wav'') [0x52, 0x49]) =
   (Inl (HTTPException 500 ''Internal server error: connection refused''),
    [Transcribe [0x52, 0x49] config,
     Invoke ''Summarize this in one very short sentence:\<newline>\<newline>Hello there''])"
  using upload_file_summarization_raises
    [of "upload (Some ''audio/wav'') [0x52, 0x49]"
        "stub_providers (Inr (completed_transcript (Some ''Hello there'')))
           (\<lambda>prompt. Inl (Exception ''connection refused'')) (Inr [[0x41]])"
        "completed_transcript (Some ''Hello there'')" "''connection refused''"]
  by (simp add: upload_def stub_providers_def completed_transcript_def make_prompt_def)

text \<open>
  A language model that raises an exception which is not an instance of \<open>Exception\<close>: it
  leaves the handler as it is, and no 500 is produced.
\<close>

theorem upload_file_summarization_raises_counterexample:
  "upload_file
     (stub_providers (Inr (completed_transcript (Some ''Hello there'')))
        (raising (BaseException ''interrupted'')) (Inr [[0x41]]))
     (upload (Some ''audio/wav'') [0x52, 0x49]) =
   (Inl (BaseException ''interrupted''),
    [Transcribe [0x52, 0x49] config,
     Invoke ''Summarize this in one very short sentence:\<newline>\<newline>Hello there''])"
  by (simp add: upload_file_def upload_file_try_def upload_def stub_providers_def
      completed_transcript_def raising_def make_prompt_def Let_def)

text \<open>
  C6. When the request reaches the synthesis step and the synthesis yields the finite
  chunk sequence \<open>chunks\<close>, the handler returns a response with status 200 whose body is
  the concatenation of the chunks, in order and with nothing added or dropped; for the
  chunks b"AB", b"CD" the body is b"ABCD".
\<close>

theorem upload_file_body_is_concat:
  assumes "\<not> unsupported (content_type file)" and "read file \<noteq> []"
    and "transcribe P (read file) config = Inr t"
    and "transcript_status t \<noteq> error"
    and "invoke P (make_prompt (transcript_text t)) = Inr s"
    and "convert P s voice_id model_id output_format = Inr chunks"
  shows "\<exists>r. fst (upload_file P file) = Inr r \<and> status_code r = 200 \<and>
             media_type r = ''audio/mpeg'' \<and> response_body r = concat chunks"
proof -
  let ?r = "StreamingResponse (BytesIO (join [] chunks)) ''audio/mpeg''"
  from assms have "fst (upload_file P file) = Inr ?r"
    by (simp add: upload_file_success)
  moreover have "status_code ?r = 200" and "media_type ?r = ''audio/mpeg''"
    by (simp_all add: StreamingResponse_def)
  moreover have "response_body ?r = concat chunks"
    by (rule response_body_StreamingResponse)
  ultimately show ?thesis by blast
qed

text \<open>The chunks b"AB" and b"CD".\<close>

theorem upload_file_body_is_concat_witness:
  "\<exists>r. fst (upload_file
             (stub_providers (Inr (completed_transcript (Some ''Hello there''))) echo
                (Inr [[0x41, 0x42], [0x43, 0x44]]))
             (upload (Some ''audio/wav'') [0x52, 0x49])) = Inr r \<and>
       status_code r = 200 \<and> media_type r = ''audio/mpeg'' \<and>
       response_body r = [0x41, 0x42, 0x43, 0x44]"
  using upload_file_body_is_concat
    [of "upload (Some ''audio/wav'') [0x52, 0x49]"
        "stub_providers (Inr (completed_transcript (Some ''Hello there''))) echo
           (Inr [[0x41, 0x42], [0x43, 0x44]])"
        "completed_transcript (Some ''Hello there'')"
        "make_prompt (Some ''Hello there'')"
        "[[0x41, 0x42], [0x43, 0x44]]"]
  by (simp add: upload_def stub_providers_def completed_transcript_def echo_def)

text \<open>
  C7. The language model is called with a prompt \<open>p\<close> exactly when the request reaches the
  summarization step, and \<open>p\<close> is then the fixed instruction "Summarize this in one very
  short sentence:" and two newlines, followed by the whole transcript text as it is (as
  an f-string renders it, so "None" for a transcript text of \<open>None\<close>). Nothing is cut off.
\<close>

theorem upload_file_prompt:
  "Invoke p \<in> set (snd (upload_file P file)) \<longleftrightarrow>
     \<not> unsupported (content_type file) \<and> read file \<noteq> [] \<and>
     (\<exists>t. transcribe P (read file) config = Inr t \<and> transcript_status t \<noteq> error \<and>
          p = ''Summarize this in one very short sentence:\<newline>\<newline>'' @
              (case transcript_text t of None \<Rightarrow> ''None'' | Some s \<Rightarrow> s))"
proof -
  have "make_prompt x =
          ''Summarize this in one very short sentence:\<newline>\<newline>'' @
          (case x of None \<Rightarrow> ''None'' | Some s \<Rightarrow> s)" for x
    unfolding make_prompt_def by (cases x) simp_all
  then show ?thesis
    by (simp only: Invoke_in_calls_iff)
qed

text \<open>The transcript "Hello there".\<close>

theorem upload_file_prompt_witness:
  "Invoke ''Summarize this in one very short sentence:\<newline>\<newline>Hello there''
     \<in> set (snd (upload_file
                  (stub_providers (Inr (completed_transcript (Some ''Hello there''))) echo
                     (Inr [[0x41]]))
                  (upload (Some ''audio/wav'') [0x52, 0x49])))"
  using upload_file_prompt
    [of "''Summarize this in one very short sentence:\<newline>\<newline>Hello there''"
        "stub_providers (Inr (completed_transcript (Some ''Hello there''))) echo (Inr [[0x41]])"
        "upload (Some ''audio/wav'') [0x52, 0x49]"]
  by (simp add: upload_def stub_providers_def completed_transcript_def)

text \<open>
  C8. Two invocations one after the other, on the same clients, the second in the state
  the first has left, with the same upload bytes and the same declared content type: when
  the clients are deterministic, the second gives the same outcome (status, media type and
  body chunks, or the error) and makes the same provider calls as the first. Nothing the
  first invocation did reaches the second but through the clients, and nothing else of the
  upload is read.
\<close>

theorem upload_file_st_twice:
  assumes "deterministic W"
    and "read file1 = read file2" and "content_type file1 = content_type file2"
  shows "fst (upload_file_st W file2 (snd (upload_file_st W file1 s0))) =
         fst (upload_file_st W file1 s0)"
proof -
  have "fst (upload_file_st W file2 (snd (upload_file_st W file1 s0))) =
        upload_file (answers W s0) file2"
    using assms(1) by (rule upload_file_st_answers)
  also have "\<dots> = upload_file (answers W s0) file1"
    by (rule upload_file_cong) (simp_all add: assms(2,3))
  also have "\<dots> = fst (upload_file_st W file1 s0)"
    using assms(1) by (rule upload_file_st_answers [symmetric])
  finally show ?thesis .
qed

text \<open>
  Clients that count their calls, and two uploads that differ in file name and size field
  only: the first invocation leaves the count at 3, and the second answers as the first.
\<close>

theorem upload_file_st_twice_witness:
  "snd (upload_file_st
          (counting (stub_providers (Inr (completed_transcript (Some ''Hello there''))) echo
             (Inr [[0x41, 0x55, 0x44, 0x49, 0x4F]])))
          (upload (Some ''audio/wav'') [0x52, 0x49]) 0) = 3 \<and>
   fst (upload_file_st
          (counting (stub_providers (Inr (completed_transcript (Some ''Hello there''))) echo
             (Inr [[0x41, 0x55, 0x44, 0x49, 0x4F]])))
          \<lparr>filename = None, content_type = Some ''audio/wav'', file_size = None,
           read = [0x52, 0x49]\<rparr>
          (snd (upload_file_st
                  (counting (stub_providers (Inr (completed_transcript (Some ''Hello there'')))
                     echo (Inr [[0x41, 0x55, 0x44, 0x49, 0x4F]])))
                  (upload (Some ''audio/wav'') [0x52, 0x49]) 0))) =
   fst (upload_file_st
          (counting (stub_providers (Inr (completed_transcript (Some ''Hello there''))) echo
             (Inr [[0x41, 0x55, 0x44, 0x49, 0x4F]])))
          (upload (Some ''audio/wav'') [0x52, 0x49]) 0)"
proof
  show "snd (upload_file_st
          (counting (stub_providers (Inr (completed_transcript (Some ''Hello there''))) echo
             (Inr [[0x41, 0x55, 0x44, 0x49, 0x4F]])))
          (upload (Some ''audio/wav'') [0x52, 0x49]) 0) = 3"
    by (simp add: upload_file_st_def upload_file_try_st_def counting_def stub_providers_def
        completed_transcript_def echo_def upload_def Let_def)
next
  show "fst (upload_file_st
          (counting (stub_providers (Inr (completed_transcript (Some ''Hello there''))) echo
             (Inr [[0x41, 0x55, 0x44, 0x49, 0x4F]])))
          \<lparr>filename = None, content_type = Some ''audio/wav'', file_size = None,
           read = [0x52, 0x49]\<rparr>
          (snd (upload_file_st
                  (counting (stub_providers (Inr (completed_transcript (Some ''Hello there'')))
                     echo (Inr [[0x41, 0x55, 0x44, 0x49, 0x4F]])))
                  (upload (Some ''audio/wav'') [0x52, 0x49]) 0))) =
   fst (upload_file_st
          (counting (stub_providers (Inr (completed_transcript (Some ''Hello there''))) echo
             (Inr [[0x41, 0x55, 0x44, 0x49, 0x4F]])))
          (upload (Some ''audio/wav'') [0x52, 0x49]) 0)"
    by (rule upload_file_st_twice) (simp_all add: deterministic_counting upload_def)
qed

text \<open>
  C9. An upload with no declared content type passes the media type check. With an empty
  body it is answered with "Uploaded file is empty"; with a non-empty body the first thing
  the handler does is call the transcription with the uploaded bytes. The handler never
  answers it with the unsupported-type 400 of its own: that outcome occurs only when the
  body is non-empty and one of the providers, reached in turn, raised exactly that
  \<open>HTTPException\<close>.
\<close>

theorem upload_file_no_content_type:
  assumes "content_type file = None"
  shows "(read file = [] \<longrightarrow>
            upload_file P file = (Inl (HTTPException 400 ''Uploaded file is empty''), [])) \<and>
         (read file \<noteq> [] \<longrightarrow>
            (\<exists>rest. snd (upload_file P file) = Transcribe (read file) config # rest)) \<and>
         (\<forall>ct. fst (upload_file P file) = Inl (HTTPException 400 (unsupported_detail ct)) \<longrightarrow>
            read file \<noteq> [] \<and>
            (transcribe P (read file) config = Inl (HTTPException 400 (unsupported_detail ct)) \<or>
             (\<exists>t. transcribe P (read file) config = Inr t \<and> transcript_status t \<noteq> error \<and>
                  (invoke P (make_prompt (transcript_text t)) =
                     Inl (HTTPException 400 (unsupported_detail ct)) \<or>
                   (\<exists>s. invoke P (make_prompt (transcript_text t)) = Inr s \<and>
                        convert P s voice_id model_id output_format =
                          Inl (HTTPException 400 (unsupported_detail ct)))))))"
proof -
  let ?e = "\<lambda>ct. HTTPException 400 (unsupported_detail ct)"
  from assms have ok: "\<not> unsupported (content_type file)"
    by simp
  have a: "upload_file P file = (Inl (HTTPException 400 ''Uploaded file is empty''), [])"
    if "read file = []"
    using ok that by (rule upload_file_empty)
  have b: "\<exists>rest. snd (upload_file P file) = Transcribe (read file) config # rest"
    if "read file \<noteq> []"
    using ok that by (rule upload_file_calls_prefix)
  have c: "read file \<noteq> [] \<and>
           (transcribe P (read file) config = Inl (?e ct) \<or>
            (\<exists>t. transcribe P (read file) config = Inr t \<and> transcript_status t \<noteq> error \<and>
                 (invoke P (make_prompt (transcript_text t)) = Inl (?e ct) \<or>
                  (\<exists>s. invoke P (make_prompt (transcript_text t)) = Inr s \<and>
                       convert P s voice_id model_id output_format = Inl (?e ct)))))"
    if h: "fst (upload_file P file) = Inl (?e ct)" for ct
  proof -
    have ne: "read file \<noteq> []"
    proof
      assume "read file = []"
      then have "fst (upload_file P file) = Inl (HTTPException 400 ''Uploaded file is empty'')"
        by (simp add: a)
      with h show False
        using empty_detail_differs [of ct] by simp
    qed
    show ?thesis
    proof (cases "transcribe P (read file) config")
      case (Inl e)
      with ok ne have "fst (upload_file P file) = Inl (except e)"
        by (simp add: upload_file_transcribe_raises)
      with h have "e = ?e ct"
        by (simp add: except_HTTPException_400)
      with Inl ne show ?thesis by simp
    next
      case (Inr t)
      note t = this
      show ?thesis
      proof (cases "transcript_status t = error")
        case True
        with ok ne t have "fst (upload_file P file) =
            Inl (HTTPException 500 (''Transcription failed: '' @ fstr (transcript_error t)))"
          by (simp add: upload_file_transcript_error)
        with h show ?thesis by simp
      next
        case False
        note live = this
        show ?thesis
        proof (cases "invoke P (make_prompt (transcript_text t))")
          case (Inl e)
          with ok ne t live have "fst (upload_file P file) = Inl (except e)"
            by (simp add: upload_file_invoke_raises)
          with h have "e = ?e ct"
            by (simp add: except_HTTPException_400)
          with Inl ne t live show ?thesis by simp
        next
          case (Inr s)
          note s = this
          show ?thesis
          proof (cases "convert P s voice_id model_id output_format")
            case (Inl e)
            with ok ne t live s have "fst (upload_file P file) = Inl (except e)"
              by (simp add: upload_file_convert_raises)
            with h have "e = ?e ct"
              by (simp add: except_HTTPException_400)
            with Inl ne t live s show ?thesis by simp
          next
            case (Inr chunks)
            with ok ne t live s have "\<exists>r. fst (upload_file P file) = Inr r"
              by (simp add: upload_file_success)
            with h show ?thesis by auto
          qed
        qed
      qed
    qed
  qed
  from a b c show ?thesis by blast
qed

text \<open>A non-empty upload without content type, and providers that do not raise.\<close>

theorem upload_file_no_content_type_witness:
  "(\<exists>rest. snd (upload_file
                  (stub_providers (Inr (completed_transcript (Some ''Hello there''))) echo
                     (Inr [[0x41]]))
                  (upload None [0x52, 0x49])) = Transcribe [0x52, 0x49] config # rest) \<and>
   fst (upload_file
          (stub_providers (Inr (completed_transcript (Some ''Hello there''))) echo
             (Inr [[0x41]]))
          (upload None [0x52, 0x49])) \<noteq>
     Inl (HTTPException 400 (unsupported_detail None))"
  using upload_file_no_content_type
    [of "upload None [0x52, 0x49]"
        "stub_providers (Inr (completed_transcript (Some ''Hello there''))) echo (Inr [[0x41]])"]
  by (auto simp: upload_def stub_providers_def completed_transcript_def echo_def)

text \<open>
  C10. When the transcription completes with a transcript text that is \<open>None\<close> or empty,
  the handler raises no error of its own: it calls the language model with the fixed
  instruction followed by "None" or by nothing, then, if the language model returns, the
  synthesis with what it returned, and, if the synthesis returns too, answers with status
  200 and the joined audio.
\<close>

theorem upload_file_empty_transcript:
  assumes "\<not> unsupported (content_type file)" and "read file \<noteq> []"
    and "transcribe P (read file) config = Inr t"
    and "transcript_status t = completed"
    and "transcript_text t = None \<or> transcript_text t = Some ''''"
  shows "let prompt = ''Summarize this in one very short sentence:\<newline>\<newline>'' @
                      (if transcript_text t = None then ''None'' else '''')
         in (\<exists>rest. snd (upload_file P file) =
                       Transcribe (read file) config # Invoke prompt # rest) \<and>
            (\<forall>s. invoke P prompt = Inr s \<longrightarrow>
                   Convert s voice_id model_id output_format \<in> set (snd (upload_file P file))) \<and>
            (\<forall>s chunks. invoke P prompt = Inr s \<and>
                   convert P s voice_id model_id output_format = Inr chunks \<longrightarrow>
                   (\<exists>r. fst (upload_file P file) = Inr r \<and> status_code r = 200 \<and>
                        response_body r = concat chunks))"
proof -
  let ?p = "''Summarize this in one very short sentence:\<newline>\<newline>'' @
            (if transcript_text t = None then ''None'' else '''')"
  from assms(5) have p: "make_prompt (transcript_text t) = ?p"
    by (auto simp: make_prompt_def)
  from assms(4) have live: "transcript_status t \<noteq> error"
    by simp
  have a: "\<exists>rest. snd (upload_file P file) = Transcribe (read file) config # Invoke ?p # rest"
  proof (cases "invoke P ?p")
    case (Inl e)
    with assms(1-3) live p show ?thesis
      by (simp add: upload_file_invoke_raises [where t = t and e = e])
  next
    case (Inr s)
    note s = this
    show ?thesis
    proof (cases "convert P s voice_id model_id output_format")
      case (Inl e)
      with assms(1-3) live p s show ?thesis
        by (simp add: upload_file_convert_raises [where t = t and s = s and e = e])
    next
      case (Inr chunks)
      with assms(1-3) live p s show ?thesis
        by (simp add: upload_file_success [where t = t and s = s and chunks = chunks])
    qed
  qed
  have b: "Convert s voice_id model_id output_format \<in> set (snd (upload_file P file))"
    if s: "invoke P ?p = Inr s" for s
  proof (cases "convert P s voice_id model_id output_format")
    case (Inl e)
    with assms(1-3) live p s show ?thesis
      by (simp add: upload_file_convert_raises [where t = t and s = s and e = e])
  next
    case (Inr chunks)
    with assms(1-3) live p s show ?thesis
      by (simp add: upload_file_success [where t = t and s = s and chunks = chunks])
  qed
  have c: "\<exists>r. fst (upload_file P file) = Inr r \<and> status_code r = 200 \<and>
               response_body r = concat chunks"
    if sc: "invoke P ?p = Inr s \<and> convert P s voice_id model_id output_format = Inr chunks"
    for s chunks
  proof -
    let ?r = "StreamingResponse (BytesIO (join [] chunks)) ''audio/mpeg''"
    from sc p have "invoke P (make_prompt (transcript_text t)) = Inr s"
      and "convert P s voice_id model_id output_format = Inr chunks"
      by simp_all
    with assms(1-3) live have "fst (upload_file P file) = Inr ?r"
      by (simp add: upload_file_success)
    moreover have "status_code ?r = 200"
      by (simp add: StreamingResponse_def)
    moreover have "response_body ?r = concat chunks"
      by (rule response_body_StreamingResponse)
    ultimately show ?thesis by blast
  qed
  from a b c show ?thesis
    unfolding Let_def by blast
qed

text \<open>A completed transcript whose text is \<open>None\<close>.\<close>

theorem upload_file_empty_transcript_witness:
  "(\<exists>rest. snd (upload_file
                  (stub_providers (Inr (completed_transcript None)) echo
                     (Inr [[0x41, 0x55, 0x44, 0x49, 0x4F]]))
                  (upload (Some ''audio/wav'') [0x52, 0x49])) =
            Transcribe [0x52, 0x49] config #
            Invoke ''Summarize this in one very short sentence:\<newline>\<newline>None'' # rest) \<and>
   Convert ''Summarize this in one very short sentence:\<newline>\<newline>None''
       voice_id model_id output_format
     \<in> set (snd (upload_file
                  (stub_providers (Inr (completed_transcript None)) echo
                     (Inr [[0x41, 0x55, 0x44, 0x49, 0x4F]]))
                  (upload (Some ''audio/wav'') [0x52, 0x49]))) \<and>
   (\<exists>r. fst (upload_file
                (stub_providers (Inr (completed_transcript None)) echo
                   (Inr [[0x41, 0x55, 0x44, 0x49, 0x4F]]))
                (upload (Some ''audio/wav'') [0x52, 0x49])) = Inr r \<and>
        status_code r = 200 \<and> response_body r = [0x41, 0x55, 0x44, 0x49, 0x4F])"
  using upload_file_empty_transcript
    [of "upload (Some ''audio/wav'') [0x52, 0x49]"
        "stub_providers (Inr (completed_transcript None)) echo
           (Inr [[0x41, 0x55, 0x44, 0x49, 0x4F]])"
        "completed_transcript None"]
  by (simp add: upload_def stub_providers_def completed_transcript_def echo_def Let_def)

end
